theory Spec2Isabelle
  imports Complex_Main "HOL-Library.Sublist"
begin

section \<open>Point cloud bounding box generator: model of main.py\<close>

text \<open>
  The script scans a folder for point cloud files, reads the header of each one and writes
  one rectangle per file into a shapefile. Its three functions and its entry point are
  embedded below under their own names: \<open>get_las_files\<close>, \<open>create_bounding_box_points\<close>,
  \<open>process_point_clouds\<close> and \<open>main\<close>. The libraries they call (pathlib, laspy, fiona) are
  modelled by small executable functions over an explicit world state; exceptions are
  values of a sum type.
\<close>

subsection \<open>LAS header and the rectangle built from it\<close>

text \<open>
  The header is duck-typed in the source: any object with the attributes below will do.
  The coordinate type is therefore a type parameter; laspy delivers 64-bit floats, and the
  function only copies the values.
\<close>

record 'a header =
  x_min :: 'a
  x_max :: 'a
  y_min :: 'a
  y_max :: 'a
  point_count :: nat

definition create_bounding_box_points :: "'a header \<Rightarrow> ('a \<times> 'a) list" where
  "create_bounding_box_points header =
     [ (x_min header, y_min header),
       (x_min header, y_max header),
       (x_max header, y_max header),
       (x_max header, y_min header),
       (x_min header, y_min header) ]"

subsection \<open>Paths: pathlib on POSIX\<close>

text \<open>
  A path is its root (empty, one slash or two slashes) and its components. \<open>Path\<close> parses
  a string as pathlib does on POSIX: the string is cut at every slash, and empty components
  and single dots are dropped. Paths are compared component by component; double dots and
  symbolic links are not resolved. The script starts with a POSIX shebang line, and the
  POSIX flavour is the one modelled throughout.
\<close>

datatype path = PurePath (anchor: string) (parts: "string list")

fun split_sep :: "string \<Rightarrow> string list" where
  "split_sep [] = [[]]"
| "split_sep (c # cs) =
     (if c = CHR ''/'' then [] # split_sep cs
      else (c # hd (split_sep cs)) # tl (split_sep cs))"

definition splitroot :: "string \<Rightarrow> string" where
  "splitroot s =
     (if take 1 s \<noteq> ''/'' then ''''
      else if take 2 s = ''//'' \<and> take 3 s \<noteq> ''///'' then ''//''
      else ''/'')"

definition Path :: "string \<Rightarrow> path" where
  "Path s = PurePath (splitroot s) (filter (\<lambda>x. x \<noteq> '''' \<and> x \<noteq> ''.'') (split_sep s))"

definition path_name :: "path \<Rightarrow> string" where
  "path_name p = (if parts p = [] then '''' else last (parts p))"

definition path_parent :: "path \<Rightarrow> path" where
  "path_parent p = PurePath (anchor p) (butlast (parts p))"

text \<open>The operator \<open>/\<close> of pathlib: an absolute right operand replaces the left one.\<close>

definition joinpath :: "path \<Rightarrow> string \<Rightarrow> path" where
  "joinpath p seg =
     (let q = Path seg
      in if anchor q \<noteq> '''' then q else PurePath (anchor p) (parts p @ parts q))"

fun join_sep :: "string list \<Rightarrow> string" where
  "join_sep [] = ''''"
| "join_sep [x] = x"
| "join_sep (x # y # ys) = x @ ''/'' @ join_sep (y # ys)"

definition str_path :: "path \<Rightarrow> string" where
  "str_path p =
     (if anchor p = '''' \<and> parts p = [] then ''.'' else anchor p @ join_sep (parts p))"

text \<open>
  Shell-style matching of one name against a pattern (fnmatch, case-sensitive as on
  POSIX). Only the star and literal characters are interpreted: the two patterns of the
  script contain nothing else.
\<close>

fun fnmatch :: "string \<Rightarrow> string \<Rightarrow> bool" where
  "fnmatch [] [] = True"
| "fnmatch (c # cs) [] = False"
| "fnmatch [] (p # ps) = (p = CHR ''*'' \<and> fnmatch [] ps)"
| "fnmatch (c # cs) (p # ps) =
     (if p = CHR ''*'' then fnmatch (c # cs) ps \<or> fnmatch cs (p # ps)
      else c = p \<and> fnmatch cs ps)"

subsection \<open>Exceptions\<close>

text \<open>Each constructor carries the text that \<open>str(e)\<close> gives.\<close>

datatype exn =
    FileNotFoundError string
  | FileExistsError string
  | NotADirectoryError string
  | IsADirectoryError string
  | ValueError string
  | LaspyError string
  | FionaError string
  | WriteError string

fun str_exn :: "exn \<Rightarrow> string" where
  "str_exn (FileNotFoundError m) = m"
| "str_exn (FileExistsError m) = m"
| "str_exn (NotADirectoryError m) = m"
| "str_exn (IsADirectoryError m) = m"
| "str_exn (ValueError m) = m"
| "str_exn (LaspyError m) = m"
| "str_exn (FionaError m) = m"
| "str_exn (WriteError m) = m"

subsection \<open>The world: file system, vector datasets, standard output\<close>

text \<open>
  A directory entry is a directory or a regular file; a regular file either decodes as a
  LAS header or makes laspy raise with the given message. The file system is the list of
  its entries, in the order in which the operating system enumerates them. The current
  directory and the root (paths without components) always exist.

  The vector datasets written through fiona are kept apart from the directory entries,
  keyed by the path string handed to \<open>fiona.open\<close>. Whether fiona accepts to create a
  dataset for a path and a CRS identifier is a parameter of the world: \<open>writer_error\<close>
  gives the message of the exception it raises, if any.

  What the shapefile driver does with one record is described by \<open>driver\<close>. The library
  is not part of the repository, so its number handling is a parameter: which coordinate
  values are finite numbers, which records fail to be written for a cause of their own
  (a full disk, say), the text of the exception raised for a refused record, and the
  values that the width of a float field and of an integer field give back.
\<close>

datatype 'a node = Directory | RegularFile "string + 'a header"

record 'a feature =
  coordinates :: "('a \<times> 'a) list list"
  filename :: string
  prop_x_min :: 'a
  prop_x_max :: 'a
  prop_y_min :: 'a
  prop_y_max :: 'a
  points :: nat

record 'a dataset =
  crs_tag :: string
  features :: "'a feature list"

record 'a shapefile_driver =
  finite_value :: "'a \<Rightarrow> bool"
  write_fault :: "'a feature \<Rightarrow> bool"
  write_message :: "'a feature \<Rightarrow> string"
  stored_float :: "'a \<Rightarrow> 'a"
  stored_int :: "nat \<Rightarrow> nat"

record 'a world =
  fs :: "(path \<times> 'a node) list"
  writer_error :: "string \<Rightarrow> string \<Rightarrow> string option"
  driver :: "'a shapefile_driver"
  datasets :: "string \<rightharpoonup> 'a dataset"
  stdout :: "string list"

definition print :: "'a world \<Rightarrow> string \<Rightarrow> 'a world" where
  "print w line = w\<lparr>stdout := stdout w @ [line]\<rparr>"

definition path_exists :: "'a world \<Rightarrow> path \<Rightarrow> bool" where
  "path_exists w p = (parts p = [] \<or> map_of (fs w) p \<noteq> None)"

definition is_dir :: "'a world \<Rightarrow> path \<Rightarrow> bool" where
  "is_dir w p = (parts p = [] \<or> map_of (fs w) p = Some Directory)"

text \<open>The entries directly inside a folder, in enumeration order; none if it is no directory.\<close>

definition is_child :: "path \<Rightarrow> path \<Rightarrow> bool" where
  "is_child folder q =
     (anchor q = anchor folder \<and> parts q \<noteq> [] \<and> butlast (parts q) = parts folder)"

definition iterdir :: "'a world \<Rightarrow> path \<Rightarrow> path list" where
  "iterdir w folder =
     (if is_dir w folder then filter (is_child folder) (map fst (fs w)) else [])"

text \<open>
  \<open>folder.glob(pattern)\<close> with a pattern of one component: the entries directly inside
  the folder whose name matches, of whatever kind.
\<close>

definition glob :: "'a world \<Rightarrow> path \<Rightarrow> string \<Rightarrow> path list" where
  "glob w folder pat = filter (\<lambda>q. fnmatch (path_name q) pat) (iterdir w folder)"

text \<open>The message of an \<open>OSError\<close>: errno text, then the path between apostrophes.\<close>

definition os_error_text :: "string \<Rightarrow> path \<Rightarrow> string" where
  "os_error_text txt p = txt @ [CHR 0x27] @ str_path p @ [CHR 0x27]"

text \<open>
  \<open>Path.mkdir(exist_ok=True)\<close>, without \<open>parents\<close>. The operating system walks the
  folders above the new one from the top: the first of them that is missing gives errno 2,
  the first that is no directory gives errno 20. Only then does the last component count.
\<close>

fun proper_prefixes :: "'b list \<Rightarrow> 'b list list" where
  "proper_prefixes [] = []"
| "proper_prefixes [x] = []"
| "proper_prefixes (x # y # ys) = [x] # map ((#) x) (proper_prefixes (y # ys))"

definition ancestors :: "path \<Rightarrow> path list" where
  "ancestors p = map (PurePath (anchor p)) (proper_prefixes (parts p))"

datatype errno = ENOENT | ENOTDIR

fun walk :: "'a world \<Rightarrow> path list \<Rightarrow> errno option" where
  "walk w [] = None"
| "walk w (a # as) =
     (if \<not> path_exists w a then Some ENOENT
      else if \<not> is_dir w a then Some ENOTDIR
      else walk w as)"

definition mkdir_exist_ok :: "'a world \<Rightarrow> path \<Rightarrow> exn + 'a world" where
  "mkdir_exist_ok w p =
     (case walk w (ancestors p) of
        Some ENOENT \<Rightarrow>
          Inl (FileNotFoundError (os_error_text ''[Errno 2] No such file or directory: '' p))
      | Some ENOTDIR \<Rightarrow>
          Inl (NotADirectoryError (os_error_text ''[Errno 20] Not a directory: '' p))
      | None \<Rightarrow>
          if path_exists w p then
            (if is_dir w p then Inr w
             else Inl (FileExistsError (os_error_text ''[Errno 17] File exists: '' p)))
          else Inr (w\<lparr>fs := fs w @ [(p, Directory)]\<rparr>))"

text \<open>\<open>laspy.open(str(las_file))\<close> followed by the read of \<open>fh.header\<close>.\<close>

definition laspy_open :: "'a world \<Rightarrow> path \<Rightarrow> exn + 'a header" where
  "laspy_open w p =
     (case map_of (fs w) p of
        None \<Rightarrow>
          Inl (FileNotFoundError (os_error_text ''[Errno 2] No such file or directory: '' p))
      | Some Directory \<Rightarrow>
          Inl (IsADirectoryError (os_error_text ''[Errno 21] Is a directory: '' p))
      | Some (RegularFile (Inl msg)) \<Rightarrow> Inl (LaspyError msg)
      | Some (RegularFile (Inr header)) \<Rightarrow> Inr header)"

text \<open>
  \<open>fiona.open(path, 'w', driver, schema, crs)\<close> creates an empty dataset tagged with the
  CRS, replacing one that is there. The driver name and the schema are constants of the
  script and are not recorded.
\<close>

definition fiona_open :: "'a world \<Rightarrow> string \<Rightarrow> string \<Rightarrow> exn + 'a world" where
  "fiona_open w p crs =
     (case writer_error w p crs of
        Some msg \<Rightarrow> Inl (FionaError msg)
      | None \<Rightarrow> Inr (w\<lparr>datasets := (datasets w)(p \<mapsto> \<lparr>crs_tag = crs, features = []\<rparr>)\<rparr>))"

text \<open>
  \<open>dst.write(feature)\<close> raises, and writes nothing, for a record that the driver refuses:
  one whose point count does not fit a signed 64-bit integer, one with an extent that is
  no finite number, or one that fails for a cause of its own. Otherwise it appends the
  record as the attribute table keeps it: the file name cut to the 254 characters of its
  field, the numbers as their fields give them back, the polygon as it is.
\<close>

definition write_refused :: "'a world \<Rightarrow> 'a feature \<Rightarrow> bool" where
  "write_refused w feature =
     (2 ^ 63 \<le> points feature
      \<or> \<not> finite_value (driver w) (prop_x_min feature)
      \<or> \<not> finite_value (driver w) (prop_x_max feature)
      \<or> \<not> finite_value (driver w) (prop_y_min feature)
      \<or> \<not> finite_value (driver w) (prop_y_max feature)
      \<or> write_fault (driver w) feature)"

definition stored_record :: "'a world \<Rightarrow> 'a feature \<Rightarrow> 'a feature" where
  "stored_record w feature =
     \<lparr> coordinates = coordinates feature,
       filename = take 254 (filename feature),
       prop_x_min = stored_float (driver w) (prop_x_min feature),
       prop_x_max = stored_float (driver w) (prop_x_max feature),
       prop_y_min = stored_float (driver w) (prop_y_min feature),
       prop_y_max = stored_float (driver w) (prop_y_max feature),
       points = stored_int (driver w) (points feature) \<rparr>"

definition dst_write :: "'a world \<Rightarrow> string \<Rightarrow> 'a feature \<Rightarrow> exn + 'a world" where
  "dst_write w p feature =
     (if write_refused w feature then Inl (WriteError (write_message (driver w) feature))
      else case datasets w p of
             None \<Rightarrow> Inr w
           | Some ds \<Rightarrow>
               Inr (w\<lparr>datasets :=
                        (datasets w)(p \<mapsto> ds\<lparr>features := features ds
                                                  @ [stored_record w feature]\<rparr>)\<rparr>))"

text \<open>Decimal digits of a natural number, for the f-string that prints the file count.\<close>

fun str_nat :: "nat \<Rightarrow> string" where
  "str_nat n =
     (if n < 10 then [''0123456789'' ! n]
      else str_nat (n div 10) @ [''0123456789'' ! (n mod 10)])"

subsection \<open>The functions of the script\<close>

definition get_las_files :: "'a world \<Rightarrow> string \<Rightarrow> exn + path list" where
  "get_las_files w folder_path =
     (let folder = Path folder_path
      in if \<not> path_exists w folder
         then Inl (FileNotFoundError (''Folder not found: '' @ folder_path))
         else Inr (foldl (\<lambda>files ext. files @ glob w folder ext) [] [''*.las'', ''*.laz'']))"

text \<open>
  One turn of the loop over the discovered files: the body of the \<open>try\<close>, in which
  opening the file, reading its header and writing the record can each raise, and the
  \<open>except\<close> branch that prints the warning and goes on. The feature dictionary and the
  warning text are named, so that properties of the loop can speak about them.
\<close>

definition bbox_feature :: "path \<Rightarrow> 'a header \<Rightarrow> 'a feature" where
  "bbox_feature las_file header =
     \<lparr> coordinates = [create_bounding_box_points header],
       filename = path_name las_file,
       prop_x_min = x_min header,
       prop_x_max = x_max header,
       prop_y_min = y_min header,
       prop_y_max = y_max header,
       points = point_count header \<rparr>"

definition warning_line :: "path \<Rightarrow> exn \<Rightarrow> string" where
  "warning_line las_file e =
     ''Warning: Could not process '' @ path_name las_file @ '': '' @ str_exn e"

definition try_body :: "string \<Rightarrow> 'a world \<Rightarrow> path \<Rightarrow> exn + 'a world" where
  "try_body shapefile w las_file =
     (case laspy_open w las_file of
        Inl e \<Rightarrow> Inl e
      | Inr header \<Rightarrow> dst_write w shapefile (bbox_feature las_file header))"

definition process_file :: "string \<Rightarrow> 'a world \<Rightarrow> path \<Rightarrow> 'a world" where
  "process_file shapefile w las_file =
     (case try_body shapefile w las_file of
        Inl e \<Rightarrow> print w (warning_line las_file e)
      | Inr w' \<Rightarrow> w')"

definition process_point_clouds ::
  "'a world \<Rightarrow> string \<Rightarrow> string option \<Rightarrow> string \<Rightarrow> 'a world \<times> (exn + string)" where
  "process_point_clouds w input_folder output_folder crs =
     (let input_path = Path input_folder;
          folder_name = path_name input_path;
          output_path = (case output_folder of
                           None \<Rightarrow> joinpath input_path ''PointCloud_laz_BBOX''
                         | Some out \<Rightarrow> Path out)
      in case mkdir_exist_ok w output_path of
           Inl e \<Rightarrow> (w, Inl e)
         | Inr w1 \<Rightarrow>
            (let shapefile_path =
                   joinpath output_path (''PointCloud_laz_BBOX_'' @ folder_name @ ''.shp'')
             in case get_las_files w1 input_folder of
                  Inl e \<Rightarrow> (w1, Inl e)
                | Inr las_files \<Rightarrow>
                   if las_files = [] then
                     (w1, Inl (ValueError (''No .las or .laz files found in '' @ input_folder)))
                   else
                     (let w2 = print w1 (''Found '' @ str_nat (length las_files)
                                           @ '' point cloud files'');
                          w3 = print w2 (''Output shapefile: '' @ str_path shapefile_path)
                      in case fiona_open w3 (str_path shapefile_path) crs of
                           Inl e \<Rightarrow> (w3, Inl e)
                         | Inr w4 \<Rightarrow>
                            (foldl (process_file (str_path shapefile_path)) w4 las_files,
                             Inr (str_path shapefile_path)))))"

text \<open>
  The command line after argparse has split it: the positional folder, and the two
  options, each present or not. \<open>parse_args\<close> fills in the default of \<open>--crs\<close>.
\<close>

record command_line =
  cl_input_folder :: string
  cl_output :: "string option"
  cl_crs :: "string option"

record args =
  args_input_folder :: string
  args_output :: "string option"
  args_crs :: string

definition parse_args :: "command_line \<Rightarrow> args" where
  "parse_args cl =
     \<lparr> args_input_folder = cl_input_folder cl,
       args_output = cl_output cl,
       args_crs = (case cl_crs cl of None \<Rightarrow> ''EPSG:4326'' | Some c \<Rightarrow> c) \<rparr>"

text \<open>The entry point; the second component is the exit code of the process.\<close>

definition main :: "'a world \<Rightarrow> command_line \<Rightarrow> 'a world \<times> nat" where
  "main w cl =
     (let a = parse_args cl
      in case process_point_clouds w (args_input_folder a) (args_output a) (args_crs a) of
           (w', Inr shapefile_path) \<Rightarrow>
             (print (print w' (CHR 0x0A # ''Success! Bounding box shapefile created: ''
                                 @ shapefile_path))
                    (''Coordinate Reference System: '' @ args_crs a),
              0)
         | (w', Inl e) \<Rightarrow> (print w' (''Error: '' @ str_exn e), 1))"

subsection \<open>What the loop leaves behind\<close>

text \<open>
  The outcome of the \<open>try\<close> body for one file, read off the file system and the driver:
  the exception that sends it to the \<open>except\<close> branch, or the record handed to the
  writer. A pass over a list of files stores one record for each file that gets through
  and prints one warning for each other file, both in the order of the list.
\<close>

definition file_outcome :: "'a world \<Rightarrow> path \<Rightarrow> exn + 'a feature" where
  "file_outcome w f =
     (case laspy_open w f of
        Inl e \<Rightarrow> Inl e
      | Inr h \<Rightarrow>
          if write_refused w (bbox_feature f h)
          then Inl (WriteError (write_message (driver w) (bbox_feature f h)))
          else Inr (bbox_feature f h))"

definition written_features :: "'a world \<Rightarrow> path list \<Rightarrow> 'a feature list" where
  "written_features w files =
     concat (map (\<lambda>f. case file_outcome w f of
                         Inl e \<Rightarrow> []
                       | Inr ft \<Rightarrow> [stored_record w ft]) files)"

definition printed_warnings :: "'a world \<Rightarrow> path list \<Rightarrow> string list" where
  "printed_warnings w files =
     concat (map (\<lambda>f. case file_outcome w f of
                         Inl e \<Rightarrow> [warning_line f e]
                       | Inr ft \<Rightarrow> []) files)"

text \<open>The world after the two progress lines that precede the opening of the dataset.\<close>

definition announced :: "'a world \<Rightarrow> path list \<Rightarrow> string \<Rightarrow> 'a world" where
  "announced w las_files shapefile =
     print (print w (''Found '' @ str_nat (length las_files) @ '' point cloud files''))
           (''Output shapefile: '' @ shapefile)"

text \<open>The world in which a run ends after the loop has gone over the discovered files.\<close>

definition finished :: "'a world \<Rightarrow> path list \<Rightarrow> string \<Rightarrow> string \<Rightarrow> 'a world" where
  "finished w las_files shapefile crs =
     (announced w las_files shapefile)
       \<lparr> datasets := (datasets w)(shapefile \<mapsto>
                        \<lparr>crs_tag = crs, features = written_features w las_files\<rparr>),
         stdout := stdout (announced w las_files shapefile) @ printed_warnings w las_files \<rparr>"

subsection \<open>The specification's wording, for comparison\<close>

text \<open>
  The specification counts the files whose extension is .las or .laz in any letter case.
  \<open>claimed_point_cloud_name\<close> follows that wording: the name is lowered (ASCII letters)
  and must end in one of the two extensions.
\<close>

definition ascii_lower :: "char \<Rightarrow> char" where
  "ascii_lower c =
     (case map_of (zip ''ABCDEFGHIJKLMNOPQRSTUVWXYZ'' ''abcdefghijklmnopqrstuvwxyz'') c of
        None \<Rightarrow> c
      | Some l \<Rightarrow> l)"

definition claimed_point_cloud_name :: "string \<Rightarrow> bool" where
  "claimed_point_cloud_name nm =
     (suffix ''.las'' (map ascii_lower nm) \<or> suffix ''.laz'' (map ascii_lower nm))"

text \<open>What the script's two patterns accept: the same extensions, in lower case only.\<close>

definition point_cloud_name :: "string \<Rightarrow> bool" where
  "point_cloud_name nm = (suffix ''.las'' nm \<or> suffix ''.laz'' nm)"

text \<open>
  The specification's output location: the output folder is the one given, or the
  subfolder PointCloud_laz_BBOX of the input folder; the dataset is the component
  PointCloud_laz_BBOX_<input folder base name>.shp below it.
\<close>

definition spec_output_folder :: "string \<Rightarrow> string option \<Rightarrow> path" where
  "spec_output_folder input_folder output_folder =
     (case output_folder of
        Some out \<Rightarrow> Path out
      | None \<Rightarrow> PurePath (anchor (Path input_folder))
                         (parts (Path input_folder) @ [''PointCloud_laz_BBOX'']))"

definition spec_shapefile_path :: "string \<Rightarrow> string option \<Rightarrow> path" where
  "spec_shapefile_path input_folder output_folder =
     PurePath (anchor (spec_output_folder input_folder output_folder))
              (parts (spec_output_folder input_folder output_folder)
               @ [''PointCloud_laz_BBOX_'' @ path_name (Path input_folder) @ ''.shp''])"

subsection \<open>Sample worlds\<close>

text \<open>
  A driver for worlds whose coordinates are real numbers: every value is finite, nothing
  fails for a cause of its own, and the numbers of the samples fit their fields.
\<close>

definition plain_driver :: "real shapefile_driver" where
  "plain_driver =
     \<lparr> finite_value = (\<lambda>x. True),
       write_fault = (\<lambda>f. False),
       write_message = (\<lambda>f. ''record refused''),
       stored_float = (\<lambda>x. x),
       stored_int = (\<lambda>n. n) \<rparr>"

definition tile_header :: "real \<Rightarrow> real header" where
  "tile_header x = \<lparr>x_min = x, x_max = x + 10, y_min = 0, y_max = 5, point_count = 100\<rparr>"

text \<open>A folder with three readable tiles, enumerated as A.las, B.laz, C.las.\<close>

definition tiles_world :: "real world" where
  "tiles_world =
     \<lparr> fs = [ (PurePath '''' [''tiles''], Directory),
              (PurePath '''' [''tiles'', ''A.las''], RegularFile (Inr (tile_header 0))),
              (PurePath '''' [''tiles'', ''B.laz''], RegularFile (Inr (tile_header 10))),
              (PurePath '''' [''tiles'', ''C.las''], RegularFile (Inr (tile_header 20))) ],
       writer_error = (\<lambda>p c. None),
       driver = plain_driver,
       datasets = Map.empty,
       stdout = [] \<rparr>"

text \<open>
  A folder with two readable tiles, one tile with a corrupt header, a tile with an
  upper-case extension, a text file, and a subfolder holding one more tile.
\<close>

definition mixed_world :: "real world" where
  "mixed_world =
     \<lparr> fs = [ (PurePath '''' [''data''], Directory),
              (PurePath '''' [''data'', ''A.las''], RegularFile (Inr (tile_header 0))),
              (PurePath '''' [''data'', ''B.laz''], RegularFile (Inr (tile_header 10))),
              (PurePath '''' [''data'', ''C.las''], RegularFile (Inl ''corrupt header'')),
              (PurePath '''' [''data'', ''D.LAS''], RegularFile (Inr (tile_header 30))),
              (PurePath '''' [''data'', ''notes.txt''], RegularFile (Inl ''not a LAS file'')),
              (PurePath '''' [''data'', ''sub''], Directory),
              (PurePath '''' [''data'', ''sub'', ''E.las''], RegularFile (Inr (tile_header 40))) ],
       writer_error = (\<lambda>p c. None),
       driver = plain_driver,
       datasets = Map.empty,
       stdout = [] \<rparr>"

text \<open>The three tiles again, enumerated by the file system as C.las, B.laz, A.las.\<close>

definition shuffled_tiles_world :: "real world" where
  "shuffled_tiles_world =
     \<lparr> fs = [ (PurePath '''' [''tiles''], Directory),
              (PurePath '''' [''tiles'', ''C.las''], RegularFile (Inr (tile_header 20))),
              (PurePath '''' [''tiles'', ''B.laz''], RegularFile (Inr (tile_header 10))),
              (PurePath '''' [''tiles'', ''A.las''], RegularFile (Inr (tile_header 0))) ],
       writer_error = (\<lambda>p c. None),
       driver = plain_driver,
       datasets = Map.empty,
       stdout = [] \<rparr>"


text \<open>A folder that holds a text file and no point cloud.\<close>

definition bare_world :: "real world" where
  "bare_world =
     \<lparr> fs = [ (PurePath '''' [''empty''], Directory),
              (PurePath '''' [''empty'', ''readme.txt''], RegularFile (Inl ''not a LAS file'')) ],
       writer_error = (\<lambda>p c. None),
       driver = plain_driver,
       datasets = Map.empty,
       stdout = [] \<rparr>"

section \<open>Auxiliary facts\<close>

declare str_nat.simps [simp del]

subsection \<open>Patterns and paths\<close>

lemma fnmatch_literal:
  "CHR ''*'' \<notin> set lit \<Longrightarrow> fnmatch nm lit = (nm = lit)"
  by (induction nm lit rule: fnmatch.induct) auto

lemma fnmatch_star_literal:
  "CHR ''*'' \<notin> set lit \<Longrightarrow> fnmatch nm (CHR ''*'' # lit) = suffix lit nm"
proof (induction nm)
  case Nil
  then show ?case by (cases lit) (auto simp: fnmatch_literal)
next
  case (Cons c cs)
  then show ?case by (auto simp: fnmatch_literal suffix_Cons)
qed

lemma fnmatch_las: "fnmatch nm ''*.las'' = suffix ''.las'' nm"
  using fnmatch_star_literal [of "''.las''" nm] by simp

lemma fnmatch_laz: "fnmatch nm ''*.laz'' = suffix ''.laz'' nm"
  using fnmatch_star_literal [of "''.laz''" nm] by simp

lemma las_laz_disjoint: "suffix ''.las'' nm \<Longrightarrow> \<not> suffix ''.laz'' nm"
  by (auto simp: suffix_def)

lemma get_las_files_result:
  assumes "get_las_files w folder_path = Inr files"
  shows "files = filter (\<lambda>q. suffix ''.las'' (path_name q)) (iterdir w (Path folder_path))
               @ filter (\<lambda>q. suffix ''.laz'' (path_name q)) (iterdir w (Path folder_path))"
  using assms
  by (auto simp: get_las_files_def glob_def fnmatch_las fnmatch_laz Let_def split: if_splits)

lemma length_filter_disjoint:
  "(\<And>x. P x \<Longrightarrow> \<not> Q x) \<Longrightarrow>
   length (filter P xs) + length (filter Q xs) = length (filter (\<lambda>x. P x \<or> Q x) xs)"
  by (induction xs) auto

lemma split_sep_no_sep: "CHR ''/'' \<notin> set s \<Longrightarrow> split_sep s = [s]"
  by (induction s) auto

lemma split_sep_nonempty: "split_sep s \<noteq> []"
  by (induction s) auto

lemma split_sep_parts_no_sep: "x \<in> set (split_sep s) \<Longrightarrow> CHR ''/'' \<notin> set x"
proof (induction s arbitrary: x)
  case Nil
  then show ?case by simp
next
  case (Cons c cs)
  have ne: "split_sep cs \<noteq> []" by (rule split_sep_nonempty)
  then obtain y ys where ys: "split_sep cs = y # ys" by (cases "split_sep cs") auto
  show ?case
  proof (cases "c = CHR ''/''")
    case True
    with Cons show ?thesis by auto
  next
    case False
    with Cons.prems ys have "x = c # y \<or> x \<in> set ys" by auto
    then show ?thesis using Cons.IH ys False by auto
  qed
qed

lemma path_name_no_sep: "CHR ''/'' \<notin> set (path_name (Path s))"
proof (cases "parts (Path s) = []")
  case True
  then show ?thesis by (simp add: path_name_def)
next
  case False
  then have "last (parts (Path s)) \<in> set (parts (Path s))" by simp
  then have "last (parts (Path s)) \<in> set (split_sep s)" by (simp add: Path_def)
  then show ?thesis using False split_sep_parts_no_sep by (simp add: path_name_def)
qed

lemma Path_single:
  "CHR ''/'' \<notin> set s \<Longrightarrow> s \<noteq> '''' \<Longrightarrow> s \<noteq> ''.'' \<Longrightarrow> Path s = PurePath '''' [s]"
  by (cases s) (auto simp: Path_def split_sep_no_sep splitroot_def)

lemma joinpath_single:
  "CHR ''/'' \<notin> set s \<Longrightarrow> s \<noteq> '''' \<Longrightarrow> s \<noteq> ''.'' \<Longrightarrow>
   joinpath p s = PurePath (anchor p) (parts p @ [s])"
  by (simp add: joinpath_def Path_single)

lemma joinpath_shp:
  "joinpath p (''PointCloud_laz_BBOX_'' @ path_name (Path s) @ ''.shp'')
     = PurePath (anchor p) (parts p @ [''PointCloud_laz_BBOX_'' @ path_name (Path s) @ ''.shp''])"
  by (rule joinpath_single) (use path_name_no_sep [of s] in auto)

lemma joinpath_default:
  "joinpath p ''PointCloud_laz_BBOX'' = PurePath (anchor p) (parts p @ [''PointCloud_laz_BBOX''])"
  by (rule joinpath_single) auto

lemma output_path_eq:
  "(case output_folder of None \<Rightarrow> joinpath (Path input_folder) ''PointCloud_laz_BBOX''
                        | Some out \<Rightarrow> Path out)
     = spec_output_folder input_folder output_folder"
  by (simp add: spec_output_folder_def joinpath_default split: option.splits)

lemma shapefile_path_eq:
  "joinpath (spec_output_folder input_folder output_folder)
            (''PointCloud_laz_BBOX_'' @ path_name (Path input_folder) @ ''.shp'')
     = spec_shapefile_path input_folder output_folder"
  unfolding spec_shapefile_path_def by (rule joinpath_shp)

lemma join_sep_snoc: "ps \<noteq> [] \<Longrightarrow> join_sep (ps @ [n]) = join_sep ps @ ''/'' @ n"
  by (induction ps rule: join_sep.induct) auto

lemma str_path_snoc:
  "ps \<noteq> [] \<Longrightarrow> str_path (PurePath a (ps @ [n])) = str_path (PurePath a ps) @ ''/'' @ n"
  by (simp add: str_path_def join_sep_snoc)

lemma args_crs_default:
  "args_crs (parse_args cl) = (case cl_crs cl of Some c \<Rightarrow> c | None \<Rightarrow> ''EPSG:4326'')"
  by (simp add: parse_args_def split: option.splits)

subsection \<open>What depends on the file system and the driver only, and the loop\<close>

lemma file_outcome_env:
  assumes "fs w' = fs w" and "driver w' = driver w"
  shows "file_outcome w' = file_outcome w"
proof -
  have a: "laspy_open w' = laspy_open w"
    using assms(1) by (simp add: laspy_open_def fun_eq_iff)
  have b: "write_refused w' = write_refused w"
    using assms(2) by (simp add: write_refused_def fun_eq_iff)
  show ?thesis unfolding file_outcome_def a b assms(2) ..
qed

lemma stored_record_env: "driver w' = driver w \<Longrightarrow> stored_record w' = stored_record w"
  by (simp add: stored_record_def fun_eq_iff)

lemma written_features_env:
  assumes "fs w' = fs w" and "driver w' = driver w"
  shows "written_features w' files = written_features w files"
  unfolding written_features_def file_outcome_env [OF assms] stored_record_env [OF assms(2)] ..

lemma printed_warnings_env:
  assumes "fs w' = fs w" and "driver w' = driver w"
  shows "printed_warnings w' files = printed_warnings w files"
  unfolding printed_warnings_def file_outcome_env [OF assms] ..

lemma iterdir_fs: "fs w' = fs w \<Longrightarrow> iterdir w' p = iterdir w p"
  by (simp add: iterdir_def is_dir_def)

lemma get_las_files_fs: "fs w' = fs w \<Longrightarrow> get_las_files w' s = get_las_files w s"
  by (simp add: get_las_files_def glob_def iterdir_def is_dir_def path_exists_def Let_def)

lemma written_features_Nil: "written_features w [] = []"
  by (simp add: written_features_def)


lemma written_features_Cons:
  "written_features w (f # files) =
     (case file_outcome w f of Inl e \<Rightarrow> [] | Inr ft \<Rightarrow> [stored_record w ft])
     @ written_features w files"
  by (simp add: written_features_def)

lemma printed_warnings_Cons:
  "printed_warnings w (f # files) =
     (case file_outcome w f of Inl e \<Rightarrow> [warning_line f e] | Inr ft \<Rightarrow> [])
     @ printed_warnings w files"
  by (simp add: printed_warnings_def)



lemma process_file_skips:
  "file_outcome w f = Inl e \<Longrightarrow> process_file shp w f = print w (warning_line f e)"
  by (auto simp: process_file_def try_body_def file_outcome_def dst_write_def
           split: sum.splits if_splits)

lemma process_file_writes:
  "file_outcome w f = Inr ft \<Longrightarrow> datasets w shp = Some ds \<Longrightarrow>
   process_file shp w f =
     w\<lparr>datasets := (datasets w)(shp \<mapsto> ds\<lparr>features := features ds @ [stored_record w ft]\<rparr>)\<rparr>"
  by (auto simp: process_file_def try_body_def file_outcome_def dst_write_def
           split: sum.splits if_splits)

lemma file_outcome_name: "file_outcome w f = Inr ft \<Longrightarrow> filename ft = path_name f"
  by (auto simp: file_outcome_def bbox_feature_def split: sum.splits if_splits)

lemma loop_result:
  "datasets w shp = Some ds \<Longrightarrow>
   foldl (process_file shp) w files =
     w\<lparr> datasets := (datasets w)(shp \<mapsto> ds\<lparr>features := features ds @ written_features w files\<rparr>),
        stdout := stdout w @ printed_warnings w files \<rparr>"
proof (induction files arbitrary: w ds)
  case Nil
  then have "(datasets w)(shp \<mapsto> ds) = datasets w" by (simp add: fun_upd_idem)
  then show ?case by (simp add: written_features_def printed_warnings_def)
next
  case (Cons f files)
  show ?case
  proof (cases "file_outcome w f")
    case (Inl e)
    let ?w = "print w (warning_line f e)"
    have step: "process_file shp w f = ?w" by (rule process_file_skips [OF Inl])
    have d: "datasets ?w shp = Some ds" using Cons.prems by (simp add: print_def)
    have f: "fs ?w = fs w" and dr: "driver ?w = driver w" by (simp_all add: print_def)
    have "foldl (process_file shp) w (f # files) = foldl (process_file shp) ?w files"
      by (simp add: step)
    also have "\<dots> = ?w\<lparr> datasets := (datasets ?w)(shp \<mapsto> ds\<lparr>features := features ds @ written_features ?w files\<rparr>),
                        stdout := stdout ?w @ printed_warnings ?w files \<rparr>"
      by (rule Cons.IH [OF d])
    also have "\<dots> = w\<lparr> datasets := (datasets w)(shp \<mapsto> ds\<lparr>features := features ds @ written_features w (f # files)\<rparr>),
                        stdout := stdout w @ printed_warnings w (f # files) \<rparr>"
      unfolding written_features_env [OF f dr] printed_warnings_env [OF f dr]
                written_features_Cons printed_warnings_Cons Inl
      by (simp add: print_def)
    finally show ?thesis .
  next
    case (Inr ft)
    let ?ds = "ds\<lparr>features := features ds @ [stored_record w ft]\<rparr>"
    let ?w = "w\<lparr>datasets := (datasets w)(shp \<mapsto> ?ds)\<rparr>"
    have step: "process_file shp w f = ?w" by (rule process_file_writes [OF Inr Cons.prems])
    have d: "datasets ?w shp = Some ?ds" by simp
    have f: "fs ?w = fs w" and dr: "driver ?w = driver w" by simp_all
    have "foldl (process_file shp) w (f # files) = foldl (process_file shp) ?w files"
      by (simp add: step)
    also have "\<dots> = ?w\<lparr> datasets := (datasets ?w)(shp \<mapsto> ?ds\<lparr>features := features ?ds @ written_features ?w files\<rparr>),
                        stdout := stdout ?w @ printed_warnings ?w files \<rparr>"
      by (rule Cons.IH [OF d])
    also have "\<dots> = w\<lparr> datasets := (datasets w)(shp \<mapsto> ds\<lparr>features := features ds @ written_features w (f # files)\<rparr>),
                        stdout := stdout w @ printed_warnings w (f # files) \<rparr>"
      unfolding written_features_env [OF f dr] printed_warnings_env [OF f dr]
                written_features_Cons printed_warnings_Cons Inr
      by simp
    finally show ?thesis .
  qed
qed

lemma written_features_names:
  "map filename (written_features w files)
     = map (\<lambda>f. take 254 (path_name f)) (filter (\<lambda>f. \<not> isl (file_outcome w f)) files)"
  by (induction files)
     (auto simp: written_features_Nil written_features_Cons stored_record_def
        file_outcome_name split: sum.splits)


subsection \<open>The branches of a run\<close>

lemma process_point_clouds_unfold:
  "process_point_clouds w input_folder output_folder crs =
     (case mkdir_exist_ok w (spec_output_folder input_folder output_folder) of
        Inl e \<Rightarrow> (w, Inl e)
      | Inr w1 \<Rightarrow>
         (case get_las_files w1 input_folder of
            Inl e \<Rightarrow> (w1, Inl e)
          | Inr las_files \<Rightarrow>
             if las_files = [] then
               (w1, Inl (ValueError (''No .las or .laz files found in '' @ input_folder)))
             else
               (case fiona_open
                       (announced w1 las_files
                          (str_path (spec_shapefile_path input_folder output_folder)))
                       (str_path (spec_shapefile_path input_folder output_folder)) crs of
                  Inl e \<Rightarrow>
                    (announced w1 las_files
                       (str_path (spec_shapefile_path input_folder output_folder)), Inl e)
                | Inr w4 \<Rightarrow>
                    (foldl (process_file
                              (str_path (spec_shapefile_path input_folder output_folder)))
                           w4 las_files,
                     Inr (str_path (spec_shapefile_path input_folder output_folder))))))"
  unfolding process_point_clouds_def Let_def output_path_eq shapefile_path_eq announced_def
  by (rule refl)

lemma announced_frame:
  "fs (announced w files shp) = fs w"
  "driver (announced w files shp) = driver w"
  "datasets (announced w files shp) = datasets w"
  "writer_error (announced w files shp) = writer_error w"
  by (simp_all add: announced_def print_def)

lemma process_point_clouds_mkdir_fails:
  "mkdir_exist_ok w (spec_output_folder input_folder output_folder) = Inl e \<Longrightarrow>
   process_point_clouds w input_folder output_folder crs = (w, Inl e)"
  by (simp add: process_point_clouds_unfold)

lemma process_point_clouds_discovery_fails:
  "mkdir_exist_ok w (spec_output_folder input_folder output_folder) = Inr w1 \<Longrightarrow>
   get_las_files w1 input_folder = Inl e \<Longrightarrow>
   process_point_clouds w input_folder output_folder crs = (w1, Inl e)"
  by (simp add: process_point_clouds_unfold)

lemma process_point_clouds_no_files:
  "mkdir_exist_ok w (spec_output_folder input_folder output_folder) = Inr w1 \<Longrightarrow>
   get_las_files w1 input_folder = Inr [] \<Longrightarrow>
   process_point_clouds w input_folder output_folder crs =
     (w1, Inl (ValueError (''No .las or .laz files found in '' @ input_folder)))"
  by (simp add: process_point_clouds_unfold)

lemma process_point_clouds_writer_fails:
  "mkdir_exist_ok w (spec_output_folder input_folder output_folder) = Inr w1 \<Longrightarrow>
   get_las_files w1 input_folder = Inr files \<Longrightarrow> files \<noteq> [] \<Longrightarrow>
   writer_error w1 (str_path (spec_shapefile_path input_folder output_folder)) crs = Some msg \<Longrightarrow>
   process_point_clouds w input_folder output_folder crs =
     (announced w1 files (str_path (spec_shapefile_path input_folder output_folder)),
      Inl (FionaError msg))"
  by (simp add: process_point_clouds_unfold fiona_open_def announced_frame)

lemma process_point_clouds_completes:
  assumes "mkdir_exist_ok w (spec_output_folder input_folder output_folder) = Inr w1"
    and "get_las_files w1 input_folder = Inr files" and "files \<noteq> []"
    and "writer_error w1 (str_path (spec_shapefile_path input_folder output_folder)) crs = None"
  shows "process_point_clouds w input_folder output_folder crs =
     (finished w1 files (str_path (spec_shapefile_path input_folder output_folder)) crs,
      Inr (str_path (spec_shapefile_path input_folder output_folder)))"
proof -
  let ?shp = "str_path (spec_shapefile_path input_folder output_folder)"
  let ?a = "announced w1 files ?shp"
  let ?w4 = "?a\<lparr>datasets := (datasets ?a)(?shp \<mapsto> \<lparr>crs_tag = crs, features = []\<rparr>)\<rparr>"
  have fo: "fiona_open ?a ?shp crs = Inr ?w4"
    using assms(4) by (simp add: fiona_open_def announced_frame)
  have d: "datasets ?w4 ?shp = Some \<lparr>crs_tag = crs, features = []\<rparr>" by simp
  have f: "fs ?w4 = fs w1" and dr: "driver ?w4 = driver w1" by (simp_all add: announced_frame)
  have "foldl (process_file ?shp) ?w4 files = finished w1 files ?shp crs"
    unfolding loop_result [OF d] written_features_env [OF f dr] printed_warnings_env [OF f dr]
    by (simp add: finished_def announced_frame)
  then show ?thesis
    using assms(1,2,3) fo by (simp add: process_point_clouds_unfold)
qed

lemma finished_frame:
  "fs (finished w files shp crs) = fs w"
  "driver (finished w files shp crs) = driver w"
  "writer_error (finished w files shp crs) = writer_error w"
  "datasets (finished w files shp crs) shp = Some \<lparr>crs_tag = crs, features = written_features w files\<rparr>"
  "p \<noteq> shp \<Longrightarrow> datasets (finished w files shp crs) p = datasets w p"
  "set (printed_warnings w files) \<subseteq> set (stdout (finished w files shp crs))"
  by (simp_all add: finished_def announced_frame)

lemma mkdir_frame:
  assumes "mkdir_exist_ok w p = Inr w1"
  shows "datasets w1 = datasets w" "writer_error w1 = writer_error w" "stdout w1 = stdout w"
    "fs w1 = fs w \<or> (\<not> path_exists w p \<and> fs w1 = fs w @ [(p, Directory)])"
    "driver w1 = driver w"
  using assms by (auto simp: mkdir_exist_ok_def split: if_splits option.splits errno.splits)

lemma main_exit_0:
  "process_point_clouds w (cl_input_folder cl) (cl_output cl) (args_crs (parse_args cl)) = (w', Inr p) \<Longrightarrow>
   main w cl =
     (print (print w' (CHR 0x0A # ''Success! Bounding box shapefile created: '' @ p))
            (''Coordinate Reference System: '' @ args_crs (parse_args cl)), 0)"
  by (simp add: main_def Let_def parse_args_def)

lemma main_exit_1:
  "process_point_clouds w (cl_input_folder cl) (cl_output cl) (args_crs (parse_args cl)) = (w', Inl e) \<Longrightarrow>
   main w cl = (print w' (''Error: '' @ str_exn e), 1)"
  by (simp add: main_def Let_def parse_args_def)

lemma print_frame:
  "fs (print w l) = fs w" "driver (print w l) = driver w" "datasets (print w l) = datasets w"
  "writer_error (print w l) = writer_error w" "stdout (print w l) = stdout w @ [l]"
  by (simp_all add: print_def)


subsection \<open>Reading a run backwards from its result\<close>

lemma process_point_clouds_returns:
  assumes "process_point_clouds w input_folder output_folder crs = (w', Inr r)"
  obtains w1 files where
    "mkdir_exist_ok w (spec_output_folder input_folder output_folder) = Inr w1"
    "get_las_files w1 input_folder = Inr files" "files \<noteq> []"
    "r = str_path (spec_shapefile_path input_folder output_folder)"
    "w' = finished w1 files r crs"
proof (cases "mkdir_exist_ok w (spec_output_folder input_folder output_folder)")
  case (Inl e)
  with assms show ?thesis by (simp add: process_point_clouds_mkdir_fails)
next
  case mk: (Inr w1)
  show ?thesis
  proof (cases "get_las_files w1 input_folder")
    case (Inl e)
    with assms mk show ?thesis by (simp add: process_point_clouds_discovery_fails)
  next
    case gl: (Inr files)
    show ?thesis
    proof (cases "files = []")
      case True
      with assms mk gl show ?thesis by (simp add: process_point_clouds_no_files)
    next
      case ne: False
      let ?shp = "str_path (spec_shapefile_path input_folder output_folder)"
      show ?thesis
      proof (cases "writer_error w1 ?shp crs")
        case None
        from process_point_clouds_completes [OF mk gl ne None] assms
        have "r = ?shp" "w' = finished w1 files ?shp crs" by simp_all
        with mk gl ne that show ?thesis by blast
      next
        case (Some msg)
        from process_point_clouds_writer_fails [OF mk gl ne Some] assms
        show ?thesis by simp
      qed
    qed
  qed
qed

lemma process_point_clouds_raises:
  assumes "process_point_clouds w input_folder output_folder crs = (w', Inl e)"
  shows "datasets w' = datasets w"
proof (cases "mkdir_exist_ok w (spec_output_folder input_folder output_folder)")
  case (Inl e')
  with assms show ?thesis by (simp add: process_point_clouds_mkdir_fails)
next
  case mk: (Inr w1)
  note d = mkdir_frame(1) [OF mk]
  show ?thesis
  proof (cases "get_las_files w1 input_folder")
    case (Inl e')
    with assms mk d show ?thesis by (simp add: process_point_clouds_discovery_fails)
  next
    case gl: (Inr files)
    show ?thesis
    proof (cases "files = []")
      case True
      with assms mk gl d show ?thesis by (simp add: process_point_clouds_no_files)
    next
      case ne: False
      let ?shp = "str_path (spec_shapefile_path input_folder output_folder)"
      show ?thesis
      proof (cases "writer_error w1 ?shp crs")
        case None
        from process_point_clouds_completes [OF mk gl ne None] assms
        show ?thesis by simp
      next
        case (Some msg)
        from process_point_clouds_writer_fails [OF mk gl ne Some] assms d
        show ?thesis by (auto simp: announced_frame)
      qed
    qed
  qed
qed

subsection \<open>The sample worlds, evaluated\<close>

lemmas fs_defs = Path_def splitroot_def path_exists_def is_dir_def is_child_def iterdir_def
  glob_def path_name_def path_parent_def ancestors_def

lemma mixed_output_folder:
  "spec_output_folder ''data'' None = PurePath '''' [''data'', ''PointCloud_laz_BBOX'']"
  by (simp add: spec_output_folder_def Path_def splitroot_def)

lemma mixed_shapefile:
  "str_path (spec_shapefile_path ''data'' None)
     = ''data/PointCloud_laz_BBOX/PointCloud_laz_BBOX_data.shp''"
  by (simp add: spec_shapefile_path_def mixed_output_folder str_path_def Path_def
        splitroot_def path_name_def)

lemma mixed_mkdir:
  "mkdir_exist_ok mixed_world (spec_output_folder ''data'' None)
     = Inr (mixed_world\<lparr>fs := fs mixed_world
                @ [(PurePath '''' [''data'', ''PointCloud_laz_BBOX''], Directory)]\<rparr>)"
  by (simp add: mixed_output_folder mkdir_exist_ok_def mixed_world_def fs_defs)

lemma mixed_discovery:
  "get_las_files (mixed_world\<lparr>fs := fs mixed_world
                @ [(PurePath '''' [''data'', ''PointCloud_laz_BBOX''], Directory)]\<rparr>) ''data''
     = Inr [PurePath '''' [''data'', ''A.las''], PurePath '''' [''data'', ''C.las''],
            PurePath '''' [''data'', ''B.laz'']]"
  by (simp add: get_las_files_def mixed_world_def fs_defs)

lemma mixed_discovery_before:
  "get_las_files mixed_world ''data''
     = Inr [PurePath '''' [''data'', ''A.las''], PurePath '''' [''data'', ''C.las''],
            PurePath '''' [''data'', ''B.laz'']]"
  by (simp add: get_las_files_def mixed_world_def fs_defs)

lemma mixed_iterdir:
  "iterdir mixed_world (Path ''data'')
     = [PurePath '''' [''data'', ''A.las''], PurePath '''' [''data'', ''B.laz''],
        PurePath '''' [''data'', ''C.las''], PurePath '''' [''data'', ''D.LAS''],
        PurePath '''' [''data'', ''notes.txt''], PurePath '''' [''data'', ''sub'']]"
  by (simp add: mixed_world_def fs_defs)

lemma tiles_output_folder:
  "spec_output_folder ''tiles'' None = PurePath '''' [''tiles'', ''PointCloud_laz_BBOX'']"
  by (simp add: spec_output_folder_def Path_def splitroot_def)

lemma tiles_shapefile:
  "str_path (spec_shapefile_path ''tiles'' None)
     = ''tiles/PointCloud_laz_BBOX/PointCloud_laz_BBOX_tiles.shp''"
  by (simp add: spec_shapefile_path_def tiles_output_folder str_path_def Path_def
        splitroot_def path_name_def)

lemma tiles_mkdir:
  "mkdir_exist_ok tiles_world (spec_output_folder ''tiles'' None)
     = Inr (tiles_world\<lparr>fs := fs tiles_world
                @ [(PurePath '''' [''tiles'', ''PointCloud_laz_BBOX''], Directory)]\<rparr>)"
  by (simp add: tiles_output_folder mkdir_exist_ok_def tiles_world_def fs_defs)

lemma tiles_discovery:
  "get_las_files (tiles_world\<lparr>fs := fs tiles_world
                @ [(PurePath '''' [''tiles'', ''PointCloud_laz_BBOX''], Directory)]\<rparr>) ''tiles''
     = Inr [PurePath '''' [''tiles'', ''A.las''], PurePath '''' [''tiles'', ''C.las''],
            PurePath '''' [''tiles'', ''B.laz'']]"
  by (simp add: get_las_files_def tiles_world_def fs_defs)

lemma tiles_discovery_before:
  "get_las_files tiles_world ''tiles''
     = Inr [PurePath '''' [''tiles'', ''A.las''], PurePath '''' [''tiles'', ''C.las''],
            PurePath '''' [''tiles'', ''B.laz'']]"
  by (simp add: get_las_files_def tiles_world_def fs_defs)

lemmas outcome_defs = file_outcome_def laspy_open_def write_refused_def bbox_feature_def
  tile_header_def plain_driver_def

lemma mixed_outcomes:
  "file_outcome (mixed_world\<lparr>fs := fs mixed_world
                @ [(PurePath '''' [''data'', ''PointCloud_laz_BBOX''], Directory)]\<rparr>)
              (PurePath '''' [''data'', ''A.las''])
     = Inr (bbox_feature (PurePath '''' [''data'', ''A.las'']) (tile_header 0))"
  "file_outcome (mixed_world\<lparr>fs := fs mixed_world
                @ [(PurePath '''' [''data'', ''PointCloud_laz_BBOX''], Directory)]\<rparr>)
              (PurePath '''' [''data'', ''B.laz''])
     = Inr (bbox_feature (PurePath '''' [''data'', ''B.laz'']) (tile_header 10))"
  "file_outcome (mixed_world\<lparr>fs := fs mixed_world
                @ [(PurePath '''' [''data'', ''PointCloud_laz_BBOX''], Directory)]\<rparr>)
              (PurePath '''' [''data'', ''C.las''])
     = Inl (LaspyError ''corrupt header'')"
  by (simp_all add: outcome_defs mixed_world_def)

lemma mixed_warnings:
  "printed_warnings (mixed_world\<lparr>fs := fs mixed_world
                @ [(PurePath '''' [''data'', ''PointCloud_laz_BBOX''], Directory)]\<rparr>)
        [PurePath '''' [''data'', ''A.las''], PurePath '''' [''data'', ''C.las''],
         PurePath '''' [''data'', ''B.laz'']]
       = [''Warning: Could not process C.las: corrupt header'']"
  by (simp add: printed_warnings_def mixed_outcomes warning_line_def path_name_def)

lemma tiles_outcomes:
  "file_outcome (tiles_world\<lparr>fs := fs tiles_world
                @ [(PurePath '''' [''tiles'', ''PointCloud_laz_BBOX''], Directory)]\<rparr>)
              (PurePath '''' [''tiles'', ''A.las''])
     = Inr (bbox_feature (PurePath '''' [''tiles'', ''A.las'']) (tile_header 0))"
  "file_outcome (tiles_world\<lparr>fs := fs tiles_world
                @ [(PurePath '''' [''tiles'', ''PointCloud_laz_BBOX''], Directory)]\<rparr>)
              (PurePath '''' [''tiles'', ''B.laz''])
     = Inr (bbox_feature (PurePath '''' [''tiles'', ''B.laz'']) (tile_header 10))"
  "file_outcome (tiles_world\<lparr>fs := fs tiles_world
                @ [(PurePath '''' [''tiles'', ''PointCloud_laz_BBOX''], Directory)]\<rparr>)
              (PurePath '''' [''tiles'', ''C.las''])
     = Inr (bbox_feature (PurePath '''' [''tiles'', ''C.las'']) (tile_header 20))"
  by (simp_all add: outcome_defs tiles_world_def)

lemma tiles_names:
  "map filename
     (written_features (tiles_world\<lparr>fs := fs tiles_world
                @ [(PurePath '''' [''tiles'', ''PointCloud_laz_BBOX''], Directory)]\<rparr>)
        [PurePath '''' [''tiles'', ''A.las''], PurePath '''' [''tiles'', ''C.las''],
         PurePath '''' [''tiles'', ''B.laz'']])
     = [''A.las'', ''C.las'', ''B.laz'']"
  by (simp add: written_features_names tiles_outcomes path_name_def)

lemma tiles_run:
  "process_point_clouds tiles_world ''tiles'' None crs =
     (finished (tiles_world\<lparr>fs := fs tiles_world
                   @ [(PurePath '''' [''tiles'', ''PointCloud_laz_BBOX''], Directory)]\<rparr>)
        [PurePath '''' [''tiles'', ''A.las''], PurePath '''' [''tiles'', ''C.las''],
         PurePath '''' [''tiles'', ''B.laz'']]
        ''tiles/PointCloud_laz_BBOX/PointCloud_laz_BBOX_tiles.shp'' crs,
      Inr ''tiles/PointCloud_laz_BBOX/PointCloud_laz_BBOX_tiles.shp'')"
  using process_point_clouds_completes [OF tiles_mkdir tiles_discovery, of crs]
  unfolding tiles_shapefile by (simp add: tiles_world_def)

lemma mixed_run:
  "process_point_clouds mixed_world ''data'' None crs =
     (finished (mixed_world\<lparr>fs := fs mixed_world
                   @ [(PurePath '''' [''data'', ''PointCloud_laz_BBOX''], Directory)]\<rparr>)
        [PurePath '''' [''data'', ''A.las''], PurePath '''' [''data'', ''C.las''],
         PurePath '''' [''data'', ''B.laz'']]
        ''data/PointCloud_laz_BBOX/PointCloud_laz_BBOX_data.shp'' crs,
      Inr ''data/PointCloud_laz_BBOX/PointCloud_laz_BBOX_data.shp'')"
  using process_point_clouds_completes [OF mixed_mkdir mixed_discovery, of crs]
  unfolding mixed_shapefile by (simp add: mixed_world_def)

lemma bare_iterdir:
  "iterdir bare_world (Path ''empty'') = [PurePath '''' [''empty'', ''readme.txt'']]"
  by (simp add: bare_world_def fs_defs)

lemma bare_out_folder:
  "spec_output_folder ''missing'' (Some ''out'') = PurePath '''' [''out'']"
  by (simp add: spec_output_folder_def Path_def splitroot_def)

lemma bare_out_mkdir:
  "mkdir_exist_ok bare_world (spec_output_folder ''missing'' (Some ''out''))
     = Inr (bare_world\<lparr>fs := fs bare_world @ [(PurePath '''' [''out''], Directory)]\<rparr>)"
  by (simp add: bare_out_folder mkdir_exist_ok_def bare_world_def fs_defs)

lemma bare_missing_discovery:
  "get_las_files (bare_world\<lparr>fs := fs bare_world @ [(PurePath '''' [''out''], Directory)]\<rparr>)
       ''missing''
     = Inl (FileNotFoundError ''Folder not found: missing'')"
  by (simp add: get_las_files_def bare_world_def fs_defs)

lemma bare_las_folder:
  "spec_output_folder ''empty'' (Some ''empty/out.las'') = PurePath '''' [''empty'', ''out.las'']"
  by (simp add: spec_output_folder_def Path_def splitroot_def)

lemma bare_las_shapefile:
  "str_path (spec_shapefile_path ''empty'' (Some ''empty/out.las''))
     = ''empty/out.las/PointCloud_laz_BBOX_empty.shp''"
  by (simp add: spec_shapefile_path_def bare_las_folder str_path_def Path_def splitroot_def
        path_name_def)

lemma bare_las_mkdir:
  "mkdir_exist_ok bare_world (spec_output_folder ''empty'' (Some ''empty/out.las''))
     = Inr (bare_world\<lparr>fs := fs bare_world
               @ [(PurePath '''' [''empty'', ''out.las''], Directory)]\<rparr>)"
  by (simp add: bare_las_folder mkdir_exist_ok_def bare_world_def fs_defs)

lemma bare_las_discovery:
  "get_las_files (bare_world\<lparr>fs := fs bare_world
               @ [(PurePath '''' [''empty'', ''out.las''], Directory)]\<rparr>) ''empty''
     = Inr [PurePath '''' [''empty'', ''out.las'']]"
  by (simp add: get_las_files_def bare_world_def fs_defs)

lemma bare_las_features:
  "written_features (bare_world\<lparr>fs := fs bare_world
               @ [(PurePath '''' [''empty'', ''out.las''], Directory)]\<rparr>)
       [PurePath '''' [''empty'', ''out.las'']] = []"
  by (simp add: written_features_def file_outcome_def laspy_open_def bare_world_def)

lemma bare_default_mkdir:
  "mkdir_exist_ok bare_world (spec_output_folder ''missing'' None)
     = Inl (FileNotFoundError
              (os_error_text ''[Errno 2] No such file or directory: ''
                 (PurePath '''' [''missing'', ''PointCloud_laz_BBOX''])))"
  by (simp add: spec_output_folder_def mkdir_exist_ok_def bare_world_def fs_defs)

lemma shuffled_mkdir:
  "mkdir_exist_ok shuffled_tiles_world (spec_output_folder ''tiles'' None)
     = Inr (shuffled_tiles_world\<lparr>fs := fs shuffled_tiles_world
                @ [(PurePath '''' [''tiles'', ''PointCloud_laz_BBOX''], Directory)]\<rparr>)"
  by (simp add: tiles_output_folder mkdir_exist_ok_def shuffled_tiles_world_def fs_defs)

lemma shuffled_discovery:
  "get_las_files (shuffled_tiles_world\<lparr>fs := fs shuffled_tiles_world
                @ [(PurePath '''' [''tiles'', ''PointCloud_laz_BBOX''], Directory)]\<rparr>) ''tiles''
     = Inr [PurePath '''' [''tiles'', ''C.las''], PurePath '''' [''tiles'', ''A.las''],
            PurePath '''' [''tiles'', ''B.laz'']]"
  by (simp add: get_las_files_def shuffled_tiles_world_def fs_defs)

lemma shuffled_iterdir:
  "iterdir shuffled_tiles_world (Path ''tiles'')
     = [PurePath '''' [''tiles'', ''C.las''], PurePath '''' [''tiles'', ''B.laz''],
        PurePath '''' [''tiles'', ''A.las'']]"
  by (simp add: shuffled_tiles_world_def fs_defs)

lemma shuffled_outcomes:
  "file_outcome (shuffled_tiles_world\<lparr>fs := fs shuffled_tiles_world
                @ [(PurePath '''' [''tiles'', ''PointCloud_laz_BBOX''], Directory)]\<rparr>)
              (PurePath '''' [''tiles'', ''A.las''])
     = Inr (bbox_feature (PurePath '''' [''tiles'', ''A.las'']) (tile_header 0))"
  "file_outcome (shuffled_tiles_world\<lparr>fs := fs shuffled_tiles_world
                @ [(PurePath '''' [''tiles'', ''PointCloud_laz_BBOX''], Directory)]\<rparr>)
              (PurePath '''' [''tiles'', ''B.laz''])
     = Inr (bbox_feature (PurePath '''' [''tiles'', ''B.laz'']) (tile_header 10))"
  "file_outcome (shuffled_tiles_world\<lparr>fs := fs shuffled_tiles_world
                @ [(PurePath '''' [''tiles'', ''PointCloud_laz_BBOX''], Directory)]\<rparr>)
              (PurePath '''' [''tiles'', ''C.las''])
     = Inr (bbox_feature (PurePath '''' [''tiles'', ''C.las'']) (tile_header 20))"
  by (simp_all add: outcome_defs shuffled_tiles_world_def)

lemma shuffled_names:
  "map filename
     (written_features (shuffled_tiles_world\<lparr>fs := fs shuffled_tiles_world
                @ [(PurePath '''' [''tiles'', ''PointCloud_laz_BBOX''], Directory)]\<rparr>)
        [PurePath '''' [''tiles'', ''C.las''], PurePath '''' [''tiles'', ''A.las''],
         PurePath '''' [''tiles'', ''B.laz'']])
     = [''C.las'', ''A.las'', ''B.laz'']"
  by (simp add: written_features_names shuffled_outcomes path_name_def)

lemma shuffled_run:
  "process_point_clouds shuffled_tiles_world ''tiles'' None crs =
     (finished (shuffled_tiles_world\<lparr>fs := fs shuffled_tiles_world
                   @ [(PurePath '''' [''tiles'', ''PointCloud_laz_BBOX''], Directory)]\<rparr>)
        [PurePath '''' [''tiles'', ''C.las''], PurePath '''' [''tiles'', ''A.las''],
         PurePath '''' [''tiles'', ''B.laz'']]
        ''tiles/PointCloud_laz_BBOX/PointCloud_laz_BBOX_tiles.shp'' crs,
      Inr ''tiles/PointCloud_laz_BBOX/PointCloud_laz_BBOX_tiles.shp'')"
  using process_point_clouds_completes [OF shuffled_mkdir shuffled_discovery, of crs]
  unfolding tiles_shapefile by (simp add: shuffled_tiles_world_def)











section \<open>Properties of the rectangle\<close>

text \<open>
  Claim C2. For every header with extents x_min, y_min, x_max, y_max the function
  create_bounding_box_points returns exactly the five vertices (x_min,y_min), (x_min,y_max),
  (x_max,y_max), (x_max,y_min), (x_min,y_min), in this order, the first and the last being
  identical; for x_min = 0, x_max = 10, y_min = 0, y_max = 5 the result is
  [(0,0), (0,5), (10,5), (10,0), (0,0)].
\<close>

theorem bounding_box_fixed_order:
  "create_bounding_box_points
       \<lparr>x_min = xmin, x_max = xmax, y_min = ymin, y_max = ymax, point_count = n\<rparr>
     = [(xmin, ymin), (xmin, ymax), (xmax, ymax), (xmax, ymin), (xmin, ymin)]
   \<and> hd (create_bounding_box_points
            \<lparr>x_min = xmin, x_max = xmax, y_min = ymin, y_max = ymax, point_count = n\<rparr>)
     = last (create_bounding_box_points
            \<lparr>x_min = xmin, x_max = xmax, y_min = ymin, y_max = ymax, point_count = n\<rparr>)
   \<and> create_bounding_box_points
       \<lparr>x_min = (0::real), x_max = 10, y_min = 0, y_max = 5, point_count = k\<rparr>
     = [(0, 0), (0, 5), (10, 5), (10, 0), (0, 0)]"
  by (simp add: create_bounding_box_points_def)

text \<open>
  Claim C6. For a header with degenerate extents (x_min = x_max and y_min = y_max) the
  function still returns a closed ring of five vertices; all five are the single point
  (x_min, y_min), so the ring encloses no area.
\<close>

theorem degenerate_extent_ring:
  assumes "x_min h = x_max h" and "y_min h = y_max h"
  shows "create_bounding_box_points h = replicate 5 (x_min h, y_min h)
       \<and> length (create_bounding_box_points h) = 5
       \<and> hd (create_bounding_box_points h) = last (create_bounding_box_points h)
       \<and> set (create_bounding_box_points h) = {(x_min h, y_min h)}"
proof -
  have five: "replicate 5 p = [p, p, p, p, p]" for p :: "'a \<times> 'a"
    by (simp add: numeral_eq_Suc)
  from assms show ?thesis
    unfolding five by (simp add: create_bounding_box_points_def)
qed

theorem degenerate_extent_ring_witness:
  "create_bounding_box_points
      \<lparr>x_min = (3::real), x_max = 3, y_min = 7, y_max = 7, point_count = 1\<rparr>
     = replicate 5 (3, 7)"
  using degenerate_extent_ring
    [of "\<lparr>x_min = (3::real), x_max = 3, y_min = 7, y_max = 7, point_count = 1\<rparr>"]
  by simp

text \<open>
  Claim C9. create_bounding_box_points is total and validates nothing: whatever the four
  extents are, inverted ones included, the result has exactly five vertices and its first
  vertex equals its last one.
\<close>

theorem bounding_box_total_closed:
  "length (create_bounding_box_points h) = 5
   \<and> hd (create_bounding_box_points h) = last (create_bounding_box_points h)
   \<and> create_bounding_box_points
        \<lparr>x_min = (10::real), x_max = 0, y_min = 5, y_max = -5, point_count = k\<rparr>
      = [(10, 5), (10, -5), (0, -5), (0, 5), (10, 5)]"
  by (simp add: create_bounding_box_points_def)

section \<open>Discovery of the point cloud files\<close>

text \<open>
  Claim C1, as amended. The claim counts the files whose extension is .las or .laz in any
  letter case; the two patterns of get_las_files are matched case-sensitively. What holds:
  get_las_files returns exactly the entries directly inside the folder whose name ends in
  lower-case .las or .laz. With N such entries and M others it returns N entries, whatever
  M is, and nothing from a subfolder.
\<close>

theorem get_las_files_lower_case_only:
  assumes "get_las_files w folder_path = Inr files"
  shows "length files
           = length (filter (\<lambda>q. point_cloud_name (path_name q)) (iterdir w (Path folder_path)))
       \<and> set files
           = {q \<in> set (iterdir w (Path folder_path)). point_cloud_name (path_name q)}
       \<and> (\<forall>q \<in> set files. is_child (Path folder_path) q)"
proof -
  let ?d = "iterdir w (Path folder_path)"
  have eq: "files = filter (\<lambda>q. suffix ''.las'' (path_name q)) ?d
                  @ filter (\<lambda>q. suffix ''.laz'' (path_name q)) ?d"
    by (rule get_las_files_result [OF assms])
  have len: "length files = length (filter (\<lambda>q. point_cloud_name (path_name q)) ?d)"
    unfolding eq point_cloud_name_def
    using length_filter_disjoint
      [of "\<lambda>q. suffix ''.las'' (path_name q)" "\<lambda>q. suffix ''.laz'' (path_name q)" ?d]
      las_laz_disjoint
    by simp
  have mem: "set files = {q \<in> set ?d. point_cloud_name (path_name q)}"
    unfolding eq point_cloud_name_def by auto
  have "\<forall>q \<in> set ?d. is_child (Path folder_path) q"
    by (simp add: iterdir_def)
  with mem have chi: "\<forall>q \<in> set files. is_child (Path folder_path) q" by simp
  from len mem chi show ?thesis by simp
qed

theorem get_las_files_lower_case_only_witness:
  "get_las_files mixed_world ''data''
     = Inr [PurePath '''' [''data'', ''A.las''], PurePath '''' [''data'', ''C.las''],
            PurePath '''' [''data'', ''B.laz'']]
   \<and> length (filter (\<lambda>q. point_cloud_name (path_name q)) (iterdir mixed_world (Path ''data'')))
       = 3
   \<and> length (filter (\<lambda>q. \<not> point_cloud_name (path_name q)) (iterdir mixed_world (Path ''data'')))
       = 3"
  using get_las_files_lower_case_only [OF mixed_discovery_before] mixed_discovery_before
  by (simp add: mixed_iterdir point_cloud_name_def path_name_def suffix_Cons)

text \<open>
  The claim as stated fails: the folder of \<open>mixed_world\<close> holds four files with a point
  cloud extension in some letter case, D.LAS among them, and get_las_files returns three.
\<close>

theorem get_las_files_upper_case_counterexample:
  "get_las_files mixed_world ''data''
     = Inr [PurePath '''' [''data'', ''A.las''], PurePath '''' [''data'', ''C.las''],
            PurePath '''' [''data'', ''B.laz'']]
   \<and> filter (\<lambda>q. claimed_point_cloud_name (path_name q)) (iterdir mixed_world (Path ''data''))
       = [PurePath '''' [''data'', ''A.las''], PurePath '''' [''data'', ''B.laz''],
          PurePath '''' [''data'', ''C.las''], PurePath '''' [''data'', ''D.LAS'']]
   \<and> length [PurePath '''' [''data'', ''A.las''], PurePath '''' [''data'', ''C.las''],
            PurePath '''' [''data'', ''B.laz'']]
       \<noteq> length (filter (\<lambda>q. claimed_point_cloud_name (path_name q))
                       (iterdir mixed_world (Path ''data'')))"
  by (simp add: mixed_discovery_before mixed_iterdir claimed_point_cloud_name_def
        ascii_lower_def path_name_def suffix_Cons)

text \<open>
  Claim C10, as amended. get_las_files returns every match of *.las before every match of
  *.laz, each group in the order in which the file system enumerates the folder: the
  script does not sort. The loop stores the records in discovery order: after a run that
  returns, the dataset holds the records of the discovered files that got through the
  \<open>try\<close> body, in the order of discovery. So a folder that the file system enumerates as
  A.las, B.laz, C.las yields the features A.las, C.las, B.laz.
\<close>

theorem las_group_before_laz_group:
  "(get_las_files w folder_path = Inr files \<longrightarrow>
      files = filter (\<lambda>q. suffix ''.las'' (path_name q)) (iterdir w (Path folder_path))
            @ filter (\<lambda>q. suffix ''.laz'' (path_name q)) (iterdir w (Path folder_path)))
   \<and> (process_point_clouds w input_folder output_folder crs = (w', Inr shp) \<longrightarrow>
        (\<exists>found ds. get_las_files w' input_folder = Inr found \<and> datasets w' shp = Some ds
            \<and> features ds = written_features w' found
            \<and> map filename (features ds)
                = map (\<lambda>f. take 254 (path_name f))
                      (filter (\<lambda>f. \<not> isl (file_outcome w' f)) found)))
   \<and> (iterdir tiles_world (Path ''tiles'')
         = [PurePath '''' [''tiles'', ''A.las''], PurePath '''' [''tiles'', ''B.laz''],
            PurePath '''' [''tiles'', ''C.las'']]
      \<and> map_option (map filename \<circ> features)
           (datasets
              (fst (main tiles_world
                      \<lparr>cl_input_folder = ''tiles'', cl_output = None, cl_crs = None\<rparr>))
              ''tiles/PointCloud_laz_BBOX/PointCloud_laz_BBOX_tiles.shp'')
          = Some [''A.las'', ''C.las'', ''B.laz''])"
proof (intro conjI impI)
  assume "get_las_files w folder_path = Inr files"
  then show "files = filter (\<lambda>q. suffix ''.las'' (path_name q)) (iterdir w (Path folder_path))
                   @ filter (\<lambda>q. suffix ''.laz'' (path_name q)) (iterdir w (Path folder_path))"
    by (rule get_las_files_result)
next
  assume run: "process_point_clouds w input_folder output_folder crs = (w', Inr shp)"
  from run obtain w1 found where
    gl: "get_las_files w1 input_folder = Inr found" and w': "w' = finished w1 found shp crs"
    by (rule process_point_clouds_returns)
  have f: "fs w' = fs w1" and dr: "driver w' = driver w1" by (simp_all add: w' finished_frame)
  have "get_las_files w' input_folder = Inr found"
    using gl by (simp add: get_las_files_fs [OF f])
  moreover have "datasets w' shp = Some \<lparr>crs_tag = crs, features = written_features w' found\<rparr>"
    unfolding written_features_env [OF f dr] by (simp add: w' finished_frame)
  ultimately show "\<exists>found ds. get_las_files w' input_folder = Inr found
      \<and> datasets w' shp = Some ds \<and> features ds = written_features w' found
      \<and> map filename (features ds)
          = map (\<lambda>f. take 254 (path_name f))
                (filter (\<lambda>f. \<not> isl (file_outcome w' f)) found)"
    by (simp add: written_features_names)
next
  show "iterdir tiles_world (Path ''tiles'')
         = [PurePath '''' [''tiles'', ''A.las''], PurePath '''' [''tiles'', ''B.laz''],
            PurePath '''' [''tiles'', ''C.las'']]"
    by (simp add: tiles_world_def fs_defs)
next
  let ?cl = "\<lparr>cl_input_folder = ''tiles'', cl_output = None, cl_crs = None\<rparr>"
  have "process_point_clouds tiles_world (cl_input_folder ?cl) (cl_output ?cl)
          (args_crs (parse_args ?cl))
        = (finished (tiles_world\<lparr>fs := fs tiles_world
                   @ [(PurePath '''' [''tiles'', ''PointCloud_laz_BBOX''], Directory)]\<rparr>)
        [PurePath '''' [''tiles'', ''A.las''], PurePath '''' [''tiles'', ''C.las''],
         PurePath '''' [''tiles'', ''B.laz'']]
        ''tiles/PointCloud_laz_BBOX/PointCloud_laz_BBOX_tiles.shp'' (args_crs (parse_args ?cl)),
      Inr ''tiles/PointCloud_laz_BBOX/PointCloud_laz_BBOX_tiles.shp'')"
    using tiles_run by simp
  from main_exit_0 [OF this]
  show "map_option (map filename \<circ> features)
        (datasets (fst (main tiles_world ?cl))
           ''tiles/PointCloud_laz_BBOX/PointCloud_laz_BBOX_tiles.shp'')
       = Some [''A.las'', ''C.las'', ''B.laz'']"
    by (simp add: print_frame finished_frame tiles_names)
qed

theorem las_group_before_laz_group_witness:
  "get_las_files tiles_world ''tiles''
     = Inr [PurePath '''' [''tiles'', ''A.las''], PurePath '''' [''tiles'', ''C.las''],
            PurePath '''' [''tiles'', ''B.laz'']]
   \<and> [PurePath '''' [''tiles'', ''A.las''], PurePath '''' [''tiles'', ''C.las''],
      PurePath '''' [''tiles'', ''B.laz'']]
     = filter (\<lambda>q. suffix ''.las'' (path_name q)) (iterdir tiles_world (Path ''tiles''))
     @ filter (\<lambda>q. suffix ''.laz'' (path_name q)) (iterdir tiles_world (Path ''tiles''))
   \<and> (\<exists>found ds.
         get_las_files
           (fst (process_point_clouds tiles_world ''tiles'' None ''EPSG:4326'')) ''tiles''
           = Inr found
       \<and> datasets (fst (process_point_clouds tiles_world ''tiles'' None ''EPSG:4326''))
             ''tiles/PointCloud_laz_BBOX/PointCloud_laz_BBOX_tiles.shp'' = Some ds
       \<and> map filename (features ds)
           = map (\<lambda>f. take 254 (path_name f))
               (filter (\<lambda>f. \<not> isl (file_outcome
                    (fst (process_point_clouds tiles_world ''tiles'' None ''EPSG:4326'')) f))
                  found))"
proof -
  let ?r = "process_point_clouds tiles_world ''tiles'' None ''EPSG:4326''"
  have run: "?r = (fst ?r, Inr ''tiles/PointCloud_laz_BBOX/PointCloud_laz_BBOX_tiles.shp'')"
    by (simp add: tiles_run)
  note inst = las_group_before_laz_group
    [of tiles_world "''tiles''"
        "[PurePath '''' [''tiles'', ''A.las''], PurePath '''' [''tiles'', ''C.las''],
          PurePath '''' [''tiles'', ''B.laz'']]"
        "''tiles''" None "''EPSG:4326''" "fst ?r"
        "''tiles/PointCloud_laz_BBOX/PointCloud_laz_BBOX_tiles.shp''"]
  from inst tiles_discovery_before run show ?thesis by blast
qed

text \<open>
  The claim as stated fails: it speaks of a folder holding A.las, B.laz, C.las, whatever
  the order of enumeration. The folder of \<open>shuffled_tiles_world\<close> holds these three files
  and is enumerated as C.las, B.laz, A.las; the features come out as C.las, A.las, B.laz.
\<close>

theorem shuffled_enumeration_counterexample:
  "iterdir shuffled_tiles_world (Path ''tiles'')
     = [PurePath '''' [''tiles'', ''C.las''], PurePath '''' [''tiles'', ''B.laz''],
        PurePath '''' [''tiles'', ''A.las'']]
   \<and> map_option (map filename \<circ> features)
        (datasets
           (fst (main shuffled_tiles_world
                   \<lparr>cl_input_folder = ''tiles'', cl_output = None, cl_crs = None\<rparr>))
           ''tiles/PointCloud_laz_BBOX/PointCloud_laz_BBOX_tiles.shp'')
       = Some [''C.las'', ''A.las'', ''B.laz'']
   \<and> [''C.las'', ''A.las'', ''B.laz''] \<noteq> [''A.las'', ''C.las'', ''B.laz'']"
proof -
  let ?cl = "\<lparr>cl_input_folder = ''tiles'', cl_output = None, cl_crs = None\<rparr>"
  have "process_point_clouds shuffled_tiles_world (cl_input_folder ?cl) (cl_output ?cl)
          (args_crs (parse_args ?cl))
        = (finished (shuffled_tiles_world\<lparr>fs := fs shuffled_tiles_world
                   @ [(PurePath '''' [''tiles'', ''PointCloud_laz_BBOX''], Directory)]\<rparr>)
        [PurePath '''' [''tiles'', ''C.las''], PurePath '''' [''tiles'', ''A.las''],
         PurePath '''' [''tiles'', ''B.laz'']]
        ''tiles/PointCloud_laz_BBOX/PointCloud_laz_BBOX_tiles.shp'' (args_crs (parse_args ?cl)),
      Inr ''tiles/PointCloud_laz_BBOX/PointCloud_laz_BBOX_tiles.shp'')"
    using shuffled_run by simp
  from main_exit_0 [OF this]
  have "map_option (map filename \<circ> features)
        (datasets (fst (main shuffled_tiles_world ?cl))
           ''tiles/PointCloud_laz_BBOX/PointCloud_laz_BBOX_tiles.shp'')
       = Some [''C.las'', ''A.las'', ''B.laz'']"
    by (simp add: print_frame finished_frame shuffled_names)
  moreover have "[''C.las'', ''A.las'', ''B.laz''] \<noteq> [''A.las'', ''C.las'', ''B.laz'']"
    by simp
  ultimately show ?thesis using shuffled_iterdir by blast
qed


section \<open>The run as a whole\<close>

text \<open>
  Claim C8. A run that returns has created the dataset at
  <output folder>/PointCloud_laz_BBOX_<base name of the input folder>.shp, the output
  folder being the one given or else <input folder>/PointCloud_laz_BBOX, and
  process_point_clouds returns this path, whether or not files were skipped.
\<close>

theorem returned_shapefile_path:
  assumes "process_point_clouds w input_folder output_folder crs = (w', Inr r)"
  shows "r = str_path (spec_shapefile_path input_folder output_folder)
       \<and> (parts (spec_output_folder input_folder output_folder) \<noteq> [] \<longrightarrow>
            r = str_path (spec_output_folder input_folder output_folder)
                @ ''/PointCloud_laz_BBOX_'' @ path_name (Path input_folder) @ ''.shp'')
       \<and> (\<exists>ds. datasets w' r = Some ds)"
proof -
  from assms obtain w1 files where
    r: "r = str_path (spec_shapefile_path input_folder output_folder)"
    and w': "w' = finished w1 files r crs"
    by (rule process_point_clouds_returns)
  have "r = str_path (spec_output_folder input_folder output_folder)
                @ ''/PointCloud_laz_BBOX_'' @ path_name (Path input_folder) @ ''.shp''"
    if "parts (spec_output_folder input_folder output_folder) \<noteq> []"
    unfolding r spec_shapefile_path_def str_path_snoc [OF that] by simp
  moreover have "\<exists>ds. datasets w' r = Some ds"
    by (simp add: w' finished_frame)
  ultimately show ?thesis using r by blast
qed

theorem returned_shapefile_path_witness:
  "snd (process_point_clouds mixed_world ''data'' None ''EPSG:4326'')
     = Inr ''data/PointCloud_laz_BBOX/PointCloud_laz_BBOX_data.shp''
   \<and> ''data/PointCloud_laz_BBOX/PointCloud_laz_BBOX_data.shp''
       = str_path (spec_shapefile_path ''data'' None)
   \<and> (\<exists>ds. datasets (fst (process_point_clouds mixed_world ''data'' None ''EPSG:4326''))
               ''data/PointCloud_laz_BBOX/PointCloud_laz_BBOX_data.shp'' = Some ds)
   \<and> printed_warnings (fst (process_point_clouds mixed_world ''data'' None ''EPSG:4326''))
        [PurePath '''' [''data'', ''A.las''], PurePath '''' [''data'', ''C.las''],
         PurePath '''' [''data'', ''B.laz'']]
       = [''Warning: Could not process C.las: corrupt header'']"
proof -
  let ?r = "process_point_clouds mixed_world ''data'' None ''EPSG:4326''"
  have run: "?r = (fst ?r, Inr ''data/PointCloud_laz_BBOX/PointCloud_laz_BBOX_data.shp'')"
    by (simp add: mixed_run)
  have skipped: "printed_warnings (fst ?r)
        [PurePath '''' [''data'', ''A.las''], PurePath '''' [''data'', ''C.las''],
         PurePath '''' [''data'', ''B.laz'']]
       = [''Warning: Could not process C.las: corrupt header'']"
    unfolding mixed_run fst_conv printed_warnings_env [OF finished_frame(1,2)]
    by (rule mixed_warnings)
  have s: "snd ?r = Inr ''data/PointCloud_laz_BBOX/PointCloud_laz_BBOX_data.shp''"
    using run by (metis snd_conv)
  from returned_shapefile_path [OF run]
  have a: "''data/PointCloud_laz_BBOX/PointCloud_laz_BBOX_data.shp''
             = str_path (spec_shapefile_path ''data'' None)"
    and c: "\<exists>ds. datasets (fst ?r)
               ''data/PointCloud_laz_BBOX/PointCloud_laz_BBOX_data.shp'' = Some ds"
    by blast+
  show ?thesis by (intro conjI) (rule s a c skipped)+
qed

text \<open>
  Claim C7. The CRS identifier handed to the dataset writer is the --crs argument as it
  was given, and EPSG:4326 when the argument was not given: a run that exits with code 0
  leaves the dataset at the output path tagged with it, and every dataset that a run has
  created or changed carries it.
\<close>

theorem crs_passed_verbatim:
  "(snd (main w cl) = 0 \<longrightarrow>
      (\<exists>ds. datasets (fst (main w cl))
               (str_path (spec_shapefile_path (cl_input_folder cl) (cl_output cl))) = Some ds
          \<and> crs_tag ds = (case cl_crs cl of Some c \<Rightarrow> c | None \<Rightarrow> ''EPSG:4326'')))
   \<and> (\<forall>p ds. datasets (fst (main w cl)) p = Some ds \<and> datasets w p \<noteq> Some ds \<longrightarrow>
          crs_tag ds = (case cl_crs cl of Some c \<Rightarrow> c | None \<Rightarrow> ''EPSG:4326''))"
proof -
  let ?crs = "args_crs (parse_args cl)"
  let ?shp = "str_path (spec_shapefile_path (cl_input_folder cl) (cl_output cl))"
  obtain w' r where
    run: "process_point_clouds w (cl_input_folder cl) (cl_output cl) ?crs = (w', r)"
    by (cases "process_point_clouds w (cl_input_folder cl) (cl_output cl) ?crs") auto
  show ?thesis
  proof (cases r)
    case (Inl e)
    with run have m: "main w cl = (print w' (''Error: '' @ str_exn e), 1)"
      by (simp add: main_exit_1)
    from run Inl have "datasets w' = datasets w"
      by (simp add: process_point_clouds_raises)
    with m show ?thesis by (simp add: print_frame)
  next
    case (Inr p)
    with run have m: "main w cl =
        (print (print w' (CHR 0x0A # ''Success! Bounding box shapefile created: '' @ p))
               (''Coordinate Reference System: '' @ ?crs), 0)"
      by (simp add: main_exit_0)
    from run Inr obtain w1 files where
      mk: "mkdir_exist_ok w (spec_output_folder (cl_input_folder cl) (cl_output cl)) = Inr w1"
      and p: "p = ?shp" and w': "w' = finished w1 files p ?crs"
      by (auto elim: process_point_clouds_returns)
    have d1: "datasets w1 = datasets w" by (rule mkdir_frame(1) [OF mk])
    have at: "datasets (fst (main w cl)) p = Some \<lparr>crs_tag = ?crs, features = written_features w1 files\<rparr>"
      by (simp add: m print_frame w' finished_frame)
    have other: "datasets (fst (main w cl)) q = datasets w q" if "q \<noteq> p" for q
      using that by (simp add: m print_frame w' finished_frame d1)
    have "crs_tag ds = ?crs" if "datasets (fst (main w cl)) q = Some ds" "datasets w q \<noteq> Some ds"
      for q ds
    proof (cases "q = p")
      case True
      with that(1) at show ?thesis by auto
    next
      case False
      with other that show ?thesis by simp
    qed
    with at p show ?thesis unfolding args_crs_default by auto
  qed
qed

theorem crs_passed_verbatim_witness:
  "snd (main tiles_world \<lparr>cl_input_folder = ''tiles'', cl_output = None,
                           cl_crs = Some ''EPSG:2100''\<rparr>) = 0
   \<and> (\<exists>ds. datasets (fst (main tiles_world \<lparr>cl_input_folder = ''tiles'', cl_output = None,
                                                cl_crs = Some ''EPSG:2100''\<rparr>))
               ''tiles/PointCloud_laz_BBOX/PointCloud_laz_BBOX_tiles.shp'' = Some ds
          \<and> crs_tag ds = ''EPSG:2100'')
   \<and> snd (main tiles_world \<lparr>cl_input_folder = ''tiles'', cl_output = None,
                             cl_crs = None\<rparr>) = 0
   \<and> (\<exists>ds. datasets (fst (main tiles_world \<lparr>cl_input_folder = ''tiles'', cl_output = None,
                                                cl_crs = None\<rparr>))
               ''tiles/PointCloud_laz_BBOX/PointCloud_laz_BBOX_tiles.shp'' = Some ds
          \<and> crs_tag ds = ''EPSG:4326'')"
proof -
  let ?a = "\<lparr>cl_input_folder = ''tiles'', cl_output = None, cl_crs = Some ''EPSG:2100''\<rparr>"
  let ?b = "\<lparr>cl_input_folder = ''tiles'', cl_output = None, cl_crs = None\<rparr>"
  have ra: "process_point_clouds tiles_world (cl_input_folder ?a) (cl_output ?a)
              (args_crs (parse_args ?a))
            = (fst (process_point_clouds tiles_world ''tiles'' None (args_crs (parse_args ?a))),
               Inr ''tiles/PointCloud_laz_BBOX/PointCloud_laz_BBOX_tiles.shp'')"
    by (simp add: tiles_run)
  have rb: "process_point_clouds tiles_world (cl_input_folder ?b) (cl_output ?b)
              (args_crs (parse_args ?b))
            = (fst (process_point_clouds tiles_world ''tiles'' None (args_crs (parse_args ?b))),
               Inr ''tiles/PointCloud_laz_BBOX/PointCloud_laz_BBOX_tiles.shp'')"
    by (simp add: tiles_run)
  have ea: "snd (main tiles_world ?a) = 0" by (simp add: main_exit_0 [OF ra])
  have eb: "snd (main tiles_world ?b) = 0" by (simp add: main_exit_0 [OF rb])
  from crs_passed_verbatim [of tiles_world ?a] crs_passed_verbatim [of tiles_world ?b] ea eb
  show ?thesis by (simp add: tiles_shapefile)
qed





text \<open>
  Claim C3. The claim says that a run whose input folder does not exist exits with a
  non-zero code, reports that the folder was not found, and creates no output folder,
  whether or not --output was given. The script makes the output folder before it looks
  at the input folder. Evaluated in \<open>bare_world\<close>, where neither \<open>missing\<close> nor \<open>out\<close>
  exists: with --output out the run exits with code 1 and prints the message of
  get_las_files, but the folder \<open>out\<close> is there afterwards; without --output the run exits
  with code 1 and the file system is as before.
\<close>

theorem missing_input_leaves_output_folder:
  "\<not> path_exists bare_world (Path ''missing'')
   \<and> \<not> path_exists bare_world (Path ''out'')
   \<and> snd (main bare_world
             \<lparr>cl_input_folder = ''missing'', cl_output = Some ''out'', cl_crs = None\<rparr>) = 1
   \<and> stdout (fst (main bare_world
             \<lparr>cl_input_folder = ''missing'', cl_output = Some ''out'', cl_crs = None\<rparr>))
       = [''Error: Folder not found: missing'']
   \<and> is_dir (fst (main bare_world
             \<lparr>cl_input_folder = ''missing'', cl_output = Some ''out'', cl_crs = None\<rparr>))
            (Path ''out'')
   \<and> snd (main bare_world
             \<lparr>cl_input_folder = ''missing'', cl_output = None, cl_crs = None\<rparr>) = 1
   \<and> fs (fst (main bare_world
             \<lparr>cl_input_folder = ''missing'', cl_output = None, cl_crs = None\<rparr>))
       = fs bare_world"
proof -
  let ?cl = "\<lparr>cl_input_folder = ''missing'', cl_output = Some ''out'', cl_crs = None\<rparr>"
  let ?w1 = "bare_world\<lparr>fs := fs bare_world @ [(PurePath '''' [''out''], Directory)]\<rparr>"
  have "process_point_clouds bare_world (cl_input_folder ?cl) (cl_output ?cl)
          (args_crs (parse_args ?cl))
        = (?w1, Inl (FileNotFoundError ''Folder not found: missing''))"
    using process_point_clouds_discovery_fails [OF bare_out_mkdir bare_missing_discovery]
    by simp
  note m = main_exit_1 [OF this]
  have a: "\<not> path_exists bare_world (Path ''missing'')"
    and b: "\<not> path_exists bare_world (Path ''out'')"
    by (simp_all add: bare_world_def fs_defs)
  have c: "snd (main bare_world ?cl) = 1" by (simp add: m)
  have d: "stdout (fst (main bare_world ?cl)) = [''Error: Folder not found: missing'']"
    unfolding m by (simp add: print_frame bare_world_def)
  have e: "is_dir (fst (main bare_world ?cl)) (Path ''out'')"
    unfolding m by (simp add: is_dir_def print_frame bare_world_def Path_def splitroot_def)
  let ?cl0 = "\<lparr>cl_input_folder = ''missing'', cl_output = None, cl_crs = None\<rparr>"
  have "process_point_clouds bare_world (cl_input_folder ?cl0) (cl_output ?cl0)
          (args_crs (parse_args ?cl0))
        = (bare_world,
           Inl (FileNotFoundError
              (os_error_text ''[Errno 2] No such file or directory: ''
                 (PurePath '''' [''missing'', ''PointCloud_laz_BBOX'']))))"
    using process_point_clouds_mkdir_fails [OF bare_default_mkdir] by simp
  note m0 = main_exit_1 [OF this]
  have f: "snd (main bare_world ?cl0) = 1" by (simp add: m0)
  have g: "fs (fst (main bare_world ?cl0)) = fs bare_world"
    unfolding m0 by (simp add: print_frame)
  from a b c d e f g show ?thesis by blast
qed

text \<open>
  Claim C5. The claim says that a run whose input folder exists and holds no matching
  file exits with a non-zero code and creates no dataset, the failure being raised before
  the writer is opened. The script makes the output folder before it lists the input
  folder, and the listing returns folders as well as files. Evaluated in \<open>bare_world\<close>,
  where the folder \<open>empty\<close> holds readme.txt only: with --output empty/out.las the new
  folder is discovered as the one point cloud file, the dataset is opened, the folder
  fails to read as a point cloud, and the run exits with code 0, leaving a dataset
  without features.
\<close>

theorem output_folder_discovered_as_point_cloud:
  "path_exists bare_world (Path ''empty'')
   \<and> iterdir bare_world (Path ''empty'') = [PurePath '''' [''empty'', ''readme.txt'']]
   \<and> \<not> claimed_point_cloud_name ''readme.txt'' \<and> \<not> point_cloud_name ''readme.txt''
   \<and> datasets bare_world ''empty/out.las/PointCloud_laz_BBOX_empty.shp'' = None
   \<and> snd (main bare_world
            \<lparr>cl_input_folder = ''empty'', cl_output = Some ''empty/out.las'', cl_crs = None\<rparr>)
       = 0
   \<and> datasets (fst (main bare_world
            \<lparr>cl_input_folder = ''empty'', cl_output = Some ''empty/out.las'', cl_crs = None\<rparr>))
         ''empty/out.las/PointCloud_laz_BBOX_empty.shp''
       = Some \<lparr>crs_tag = ''EPSG:4326'', features = []\<rparr>"
proof -
  let ?cl = "\<lparr>cl_input_folder = ''empty'', cl_output = Some ''empty/out.las'', cl_crs = None\<rparr>"
  let ?w1 = "bare_world\<lparr>fs := fs bare_world
               @ [(PurePath '''' [''empty'', ''out.las''], Directory)]\<rparr>"
  have wr: "writer_error ?w1 (str_path (spec_shapefile_path ''empty'' (Some ''empty/out.las'')))
              ''EPSG:4326'' = None"
    by (simp add: bare_world_def)
  have "process_point_clouds bare_world (cl_input_folder ?cl) (cl_output ?cl)
          (args_crs (parse_args ?cl))
        = (finished ?w1 [PurePath '''' [''empty'', ''out.las'']]
             ''empty/out.las/PointCloud_laz_BBOX_empty.shp'' ''EPSG:4326'',
           Inr ''empty/out.las/PointCloud_laz_BBOX_empty.shp'')"
    using process_point_clouds_completes [OF bare_las_mkdir bare_las_discovery _ wr]
    unfolding bare_las_shapefile by (simp add: parse_args_def)
  note m = main_exit_0 [OF this]
  have a: "path_exists bare_world (Path ''empty'')" by (simp add: bare_world_def fs_defs)
  have b: "iterdir bare_world (Path ''empty'') = [PurePath '''' [''empty'', ''readme.txt'']]"
    by (rule bare_iterdir)
  have b': "\<not> claimed_point_cloud_name ''readme.txt'' \<and> \<not> point_cloud_name ''readme.txt''"
    by (simp add: claimed_point_cloud_name_def point_cloud_name_def ascii_lower_def suffix_Cons)
  have c: "datasets bare_world ''empty/out.las/PointCloud_laz_BBOX_empty.shp'' = None"
    by (simp add: bare_world_def)
  have d: "snd (main bare_world ?cl) = 0" by (simp add: m)
  have e: "datasets (fst (main bare_world ?cl)) ''empty/out.las/PointCloud_laz_BBOX_empty.shp''
             = Some \<lparr>crs_tag = ''EPSG:4326'', features = []\<rparr>"
    by (simp add: m print_frame finished_frame bare_las_features)
  from a b b' c d e show ?thesis by blast
qed

end
